theory Spec2Isabelle
  imports Complex_Main
begin

section \<open>The dither table of cmd/cli.go\<close>

text \<open>
  \<^verbatim>\<open>colorquant.Dither\<close> is a struct with one field, the filter matrix
  \<^verbatim>\<open>[][]float32\<close>. Every entry of the table in cli.go is an untyped constant
  expression such as \<^verbatim>\<open>7.0 / 48.0\<close>, which Go evaluates exactly; the model keeps
  these exact fractions as rationals (the rounding to float32 when the value is stored
  is not part of the model).
\<close>

datatype Dither = Dither (Filter: "rat list list")

text \<open>
  The package-level variable \<^verbatim>\<open>dither\<close>, a map from kernel names to kernels. A Go
  map literal has no duplicate constant keys and the program only looks names up, so the
  map is an association list read through \<open>map_of\<close>.
\<close>

definition dither :: "(string \<times> Dither) list" where
  "dither =
    [(''FloydSteinberg'', Dither
        [[0, 0, 0, 7 / 48, 5 / 48],
         [3 / 48, 5 / 48, 7 / 48, 5 / 48, 3 / 48],
         [1 / 48, 3 / 48, 5 / 48, 3 / 48, 1 / 48]]),
     (''Burkes'', Dither
        [[0, 0, 0, 8 / 32, 4 / 32],
         [2 / 32, 4 / 32, 8 / 32, 4 / 32, 2 / 32],
         [0, 0, 0, 0, 0],
         [4 / 32, 8 / 32, 0, 0, 0]]),
     (''Stucki'', Dither
        [[0, 0, 0, 8 / 42, 4 / 42],
         [2 / 42, 4 / 42, 8 / 42, 4 / 42, 2 / 42],
         [1 / 42, 2 / 42, 4 / 42, 2 / 42, 1 / 42]]),
     (''Atkinson'', Dither
        [[0, 0, 1 / 8, 1 / 8],
         [1 / 8, 1 / 8, 1 / 8, 0],
         [0, 1 / 8, 0, 0]]),
     (''Sierra-3'', Dither
        [[0, 0, 0, 5 / 32, 3 / 32],
         [2 / 32, 4 / 32, 5 / 32, 4 / 32, 2 / 32],
         [0, 2 / 32, 3 / 32, 2 / 32, 0]]),
     (''Sierra-2'', Dither
        [[0, 0, 0, 4 / 16, 3 / 16],
         [1 / 16, 2 / 16, 3 / 16, 2 / 16, 1 / 16],
         [0, 0, 0, 0, 0]]),
     (''Sierra-Lite'', Dither
        [[0, 0, 2 / 4],
         [1 / 4, 1 / 4, 0],
         [0, 0, 0]])]"

text \<open>\<^verbatim>\<open>d, ok := dither[name]\<close>: \<open>None\<close> is \<^verbatim>\<open>ok == false\<close>.\<close>

definition dither_lookup :: "string \<Rightarrow> Dither option" where
  "dither_lookup name = map_of dither name"

subsection \<open>Measurements of a kernel\<close>

definition kernel_sum :: "Dither \<Rightarrow> rat" where
  "kernel_sum k = sum_list (map sum_list (Filter k))"

definition rows :: "Dither \<Rightarrow> nat" where
  "rows k = length (Filter k)"

text \<open>The length of every row (a slice of slices may be ragged).\<close>

definition cols :: "Dither \<Rightarrow> nat list" where
  "cols k = map length (Filter k)"

text \<open>The numerators of the weights over the denominator \<open>d\<close>.\<close>

definition scaled :: "rat \<Rightarrow> Dither \<Rightarrow> rat list list" where
  "scaled d k = map (map (\<lambda>w. w * d)) (Filter k)"

definition shape_and_weights :: "rat \<Rightarrow> string \<Rightarrow> (nat \<times> nat list \<times> rat list list) option" where
  "shape_and_weights d name =
     map_option (\<lambda>k. (rows k, cols k, scaled d k)) (dither_lookup name)"

definition within_tolerance :: "Dither \<Rightarrow> bool" where
  "within_tolerance k = (\<bar>kernel_sum k - 1\<bar> \<le> 1 / 1000000)"

section \<open>Images, palettes and the world outside the program\<close>

text \<open>
  The types of Go's \<^verbatim>\<open>image\<close> package that cli.go touches. Coordinates are Go
  \<^verbatim>\<open>int\<close>s; the program only subtracts the bounds of a decoded image, so they are
  modelled as mathematical integers.
\<close>

record Point =
  X :: int
  Y :: int

record Rectangle =
  Min_pt :: Point
  Max_pt :: Point

definition Dx :: "Rectangle \<Rightarrow> int" where
  "Dx r = X (Max_pt r) - X (Min_pt r)"

definition Dy :: "Rectangle \<Rightarrow> int" where
  "Dy r = Y (Max_pt r) - Y (Min_pt r)"

text \<open>\<^verbatim>\<open>image.Rect\<close> swaps the coordinates where needed, so that the result is well formed.\<close>

definition image_Rect :: "int \<Rightarrow> int \<Rightarrow> int \<Rightarrow> int \<Rightarrow> Rectangle" where
  "image_Rect x0 y0 x1 y1 =
     \<lparr>Min_pt = \<lparr>X = (if x0 > x1 then x1 else x0), Y = (if y0 > y1 then y1 else y0)\<rparr>,
      Max_pt = \<lparr>X = (if x0 > x1 then x0 else x1), Y = (if y0 > y1 then y0 else y1)\<rparr>\<rparr>"

datatype color = RGBA nat nat nat nat

text \<open>A value of the interface \<^verbatim>\<open>image.Image\<close>; the nil interface is \<open>None\<close> of
  \<open>image_Image option\<close>.\<close>

record image_Image =
  Bounds :: Rectangle
  At :: "int \<Rightarrow> int \<Rightarrow> color"

record image_Paletted =
  Pix :: "nat list"
  Stride :: int
  Rect :: Rectangle
  Palette :: "color list"

text \<open>\<^verbatim>\<open>image.NewPaletted(r, p)\<close>: one zero byte per pixel of \<open>r\<close>.\<close>

definition NewPaletted :: "Rectangle \<Rightarrow> color list \<Rightarrow> image_Paletted" where
  "NewPaletted r p =
     \<lparr>Pix = replicate (nat (Dx r * Dy r)) 0, Stride = Dx r, Rect = r, Palette = p\<rparr>"

text \<open>
  Modelled from the spec: the "fixed built-in palette constant" of section 9, which
  cli.go names \<^verbatim>\<open>palette.WebSafe\<close> and takes from Go's \<^verbatim>\<open>image/color/palette\<close>; the
  table is not in the repository. Its entries are the opaque colours whose three
  channels range over the six levels 0x00, 0x33, ..., 0xff, blue varying fastest.
\<close>

definition WebSafe :: "color list" where
  "WebSafe =
     concat (map (\<lambda>r. concat (map (\<lambda>g. map (\<lambda>b. RGBA (51 * r) (51 * g) (51 * b) 255)
       [0, 1, 2, 3, 4, 5]) [0, 1, 2, 3, 4, 5])) [0, 1, 2, 3, 4, 5])"

datatype error = Error string

fun Error_msg :: "error \<Rightarrow> string" where
  "Error_msg (Error m) = m"

text \<open>The receiver of a \<^verbatim>\<open>Quantize\<close> call: \<^verbatim>\<open>colorquant.NoDither\<close> or a kernel of the table.\<close>

datatype quantizer = NoDither | Kernel Dither

text \<open>The command line flags, package-level variables of cli.go that \<^verbatim>\<open>commands.Parse\<close> sets
  (\<open>output_flag\<close> is the variable \<^verbatim>\<open>output\<close>).\<close>

record flags =
  output_flag :: string
  ditherer :: string
  imageType :: string
  noDither :: bool
  compression :: int
  numColors :: int

text \<open>\<^verbatim>\<open>commands\<close> is a flag set with \<^verbatim>\<open>flag.ExitOnError\<close>: parsing either sets the
  flags or leaves the process with a status.\<close>

datatype parse_result = Parsed flags | ParseExit int

text \<open>
  What the program calls and does not define: the flag parser, the file system, the
  image decoders and encoders, and \<^verbatim>\<open>Quantize\<close> of the colorquant library. Each is
  a parameter of the model. \<^verbatim>\<open>Quantize\<close> returns an \<^verbatim>\<open>image.Image\<close>, which may be nil.
\<close>

record world =
  flag_Parse :: "string list \<Rightarrow> parse_result"
  os_Open :: "string \<Rightarrow> error option"
  image_Decode :: "string \<Rightarrow> image_Image option \<times> error option"
  filepath_Dir :: "string \<Rightarrow> string"
  filepath_Abs :: "string \<Rightarrow> error + string"
  os_Create :: "string \<Rightarrow> error option"
  jpeg_Encode :: "string \<Rightarrow> image_Image \<Rightarrow> int \<Rightarrow> error option"
  png_Encode :: "string \<Rightarrow> image_Image \<Rightarrow> error option"
  Quantize :: "quantizer \<Rightarrow> image_Image \<Rightarrow> image_Paletted \<Rightarrow> int \<Rightarrow> bool \<Rightarrow> bool \<Rightarrow> image_Image option"

text \<open>What a run does to the world, in order.\<close>

datatype event =
    Stdout string
  | StdoutElapsed
  | NewPalettedEv image_Paletted
  | QuantizeEv quantizer image_Image image_Paletted int bool bool
  | CreateEv string
  | JpegEncodeEv string image_Image int
  | PngEncodeEv string image_Image
  | CloseEv string
  | MkdirEv string
  | ChdirEv string
  | ProgressEv
  | DoneSignalEv

text \<open>
  How a call ends: it returns, or the process ends in \<^verbatim>\<open>os.Exit\<close>, in
  \<^verbatim>\<open>log.Fatal\<close> (the message on standard error, then exit status 1) or in a panic.
\<close>

datatype 'a outcome = Return 'a | Exit int | Fatal string | Panic string

definition nil_dereference :: string where
  "nil_dereference = ''runtime error: invalid memory address or nil pointer dereference''"

definition pre :: "event list \<Rightarrow> event list \<times> 'a outcome \<Rightarrow> event list \<times> 'a outcome" where
  "pre evs r = (evs @ fst r, snd r)"

section \<open>The methods of the type file\<close>

text \<open>The struct \<^verbatim>\<open>file\<close> of cli.go, here \<open>file_t\<close>.\<close>

record file_t =
  name :: string

text \<open>\<^verbatim>\<open>Open\<close>, lines 105 to 114: the image and the error of the decoder are returned as they are.\<close>

definition Open :: "world \<Rightarrow> file_t \<Rightarrow> image_Image option \<times> error option" where
  "Open w f =
     (case os_Open w (name f) of
        Some err \<Rightarrow> (None, Some err)
      | None \<Rightarrow> image_Decode w (name f))"

text \<open>
  The second half of \<^verbatim>\<open>Quantify\<close>, lines 134 to 152: create the output file and encode
  the quantized image \<open>quant\<close> by the configured type. The switch has no default case.
  \<^verbatim>\<open>log.Fatal\<close> leaves the process, so the deferred \<^verbatim>\<open>Close\<close> does not run there, and
  an encoder handed a nil image panics when it asks for the bounds.
\<close>

definition Quantify_save ::
  "world \<Rightarrow> flags \<Rightarrow> string \<Rightarrow> image_Image option \<Rightarrow>
   event list \<times> (image_Image option \<times> error option) outcome" where
  "Quantify_save w fl out quant =
     (case os_Create w out of
        Some err \<Rightarrow> ([], Return (None, Some err))
      | None \<Rightarrow>
          if imageType fl = ''jpg'' then
            (case quant of
               None \<Rightarrow> ([CreateEv out], Panic nil_dereference)
             | Some q \<Rightarrow>
                 (case jpeg_Encode w out q (compression fl) of
                    Some err \<Rightarrow>
                      ([CreateEv out, JpegEncodeEv out q (compression fl)], Fatal (Error_msg err))
                  | None \<Rightarrow>
                      ([CreateEv out, JpegEncodeEv out q (compression fl), CloseEv out],
                       Return (quant, None))))
          else if imageType fl = ''png'' then
            (case quant of
               None \<Rightarrow> ([CreateEv out], Panic nil_dereference)
             | Some q \<Rightarrow>
                 (case png_Encode w out q of
                    Some err \<Rightarrow> ([CreateEv out, PngEncodeEv out q], Fatal (Error_msg err))
                  | None \<Rightarrow> ([CreateEv out, PngEncodeEv out q, CloseEv out], Return (quant, None))))
          else ([CreateEv out, CloseEv out], Return (quant, None)))"

definition invalid_method :: string where
  "invalid_method = CHR 0x0A # ''Invalid dithering method!''"

text \<open>
  \<^verbatim>\<open>Quantify\<close>, lines 117 to 153. \<^verbatim>\<open>src.Bounds()\<close> on a nil image panics before
  anything else happens.
\<close>

definition Quantify ::
  "world \<Rightarrow> flags \<Rightarrow> image_Image option \<Rightarrow> string \<Rightarrow>
   event list \<times> (image_Image option \<times> error option) outcome" where
  "Quantify w fl src out =
     (case src of
        None \<Rightarrow> ([], Panic nil_dereference)
      | Some s \<Rightarrow>
          (let dst = NewPaletted (image_Rect 0 0 (Dx (Bounds s)) (Dy (Bounds s))) WebSafe in
           if noDither fl then
             pre [NewPalettedEv dst, QuantizeEv NoDither s dst (numColors fl) False True]
               (Quantify_save w fl out (Quantize w NoDither s dst (numColors fl) False True))
           else
             (case dither_lookup (ditherer fl) of
                None \<Rightarrow> ([NewPalettedEv dst], Fatal invalid_method)
              | Some d \<Rightarrow>
                  pre [NewPalettedEv dst, QuantizeEv (Kernel d) s dst (numColors fl) True True]
                    (Quantify_save w fl out
                       (Quantize w (Kernel d) s dst (numColors fl) True True)))))"

section \<open>main\<close>

definition helper :: string where
  "helper =
     [CHR 0x0A] @ ''Usage of commands:'' @ [CHR 0x0A] @
     ''  -compression int'' @ [CHR 0x0A] @
     ''    '' @ [CHR 0x09] @ ''JPEG compression. (default 100)'' @ [CHR 0x0A] @
     ''  -ditherer string'' @ [CHR 0x0A] @
     ''    '' @ [CHR 0x09] @ ''Dithering method. (default '' @ [CHR 0x22] @ ''FloydSteinberg'' @
       [CHR 0x22] @ '')'' @ [CHR 0x0A] @
     ''  -no-dither'' @ [CHR 0x0A] @
     ''    '' @ [CHR 0x09] @ ''Use image quantizer without dithering.'' @ [CHR 0x0A] @
     ''  -output string'' @ [CHR 0x0A] @
     ''    '' @ [CHR 0x09] @ ''Output directory. (default '' @ [CHR 0x22] @ ''output'' @
       [CHR 0x22] @ '')'' @ [CHR 0x0A] @
     ''  -palette int'' @ [CHR 0x0A] @
     ''    '' @ [CHR 0x09] @ ''The number of palette colors. (default 256)'' @ [CHR 0x0A] @
     ''  -type string'' @ [CHR 0x0A] @
     ''    '' @ [CHR 0x09] @ ''Image type. Possible options .jpg, .png (default '' @ [CHR 0x22] @
       ''jpg'' @ [CHR 0x22] @ '')'' @ [CHR 0x0A]"

definition palette_message :: string where
  "palette_message = ''Color palette value cannot be less then 1''"

text \<open>The completion message, a line feed, \<^verbatim>\<open>Done\<close>, a check mark (three bytes of UTF-8)
  and the line feed of \<^verbatim>\<open>Println\<close>.\<close>

definition done_message :: string where
  "done_message = [CHR 0x0A] @ ''Done'' @ [CHR 0xE2, CHR 0x9C, CHR 0x93, CHR 0x0A]"

text \<open>A call whose two results the caller drops.\<close>

definition discard :: "event list \<times> 'a outcome \<Rightarrow> event list \<times> unit outcome" where
  "discard r =
     (fst r,
      case snd r of
        Return v \<Rightarrow> Return ()
      | Exit n \<Rightarrow> Exit n
      | Fatal m \<Rightarrow> Fatal m
      | Panic m \<Rightarrow> Panic m)"

text \<open>The function literal of lines 199 to 215, up to the send on \<^verbatim>\<open>done\<close>.\<close>

definition process :: "world \<Rightarrow> flags \<Rightarrow> image_Image option \<Rightarrow> event list \<times> unit outcome" where
  "process w fl img =
     (if imageType fl = ''jpg'' then
        (if noDither fl then discard (Quantify w fl img ''output.jpg'')
         else discard (Quantify w fl img (ditherer fl @ ''.jpg'')))
      else if imageType fl = ''png'' then
        (if noDither fl then discard (Quantify w fl img ''output.png'')
         else discard (Quantify w fl img (ditherer fl @ ''.png'')))
      else ([], Return ()))"

text \<open>What follows the processing step when it returns: lines 214 to 219.\<close>

definition complete :: "event list \<times> unit outcome \<Rightarrow> event list \<times> unit outcome" where
  "complete r =
     (case snd r of
        Return u \<Rightarrow> (fst r @ [DoneSignalEv, Stdout done_message, StdoutElapsed], Return ())
      | Exit n \<Rightarrow> r
      | Fatal m \<Rightarrow> r
      | Panic m \<Rightarrow> r)"

text \<open>
  \<^verbatim>\<open>main\<close> on the argument vector \<^verbatim>\<open>os.Args\<close>. \<^verbatim>\<open>commands.Parsed()\<close> is true once
  \<^verbatim>\<open>Parse\<close> has returned, so the guard of line 177 always holds. The result of
  \<^verbatim>\<open>os.Mkdir\<close> is dropped and the test after it reads the error of \<^verbatim>\<open>filepath.Abs\<close>
  again, which is nil there. The dots of the progress goroutine depend on the clock and
  are not part of the trace; the goroutine is always ready to receive on \<^verbatim>\<open>done\<close>.
\<close>

definition main :: "world \<Rightarrow> string list \<Rightarrow> event list \<times> unit outcome" where
  "main w args =
     (if length args \<le> 1 then ([Stdout (helper @ [CHR 0x0A])], Exit 1)
      else if args ! 1 = ''--help'' \<or> args ! 1 = ''-h'' then
        ([Stdout (helper @ [CHR 0x0A])], Exit 1)
      else
        (case flag_Parse w (drop 2 args) of
           ParseExit n \<Rightarrow> ([], Exit n)
         | Parsed fl \<Rightarrow>
             (let input = \<lparr>name = args ! 1\<rparr>;
                  img = fst (Open w input)
              in
                if numColors fl \<le> 1 then ([], Fatal palette_message)
                else
                  (case filepath_Abs w (filepath_Dir w (name input)) of
                     Inl err \<Rightarrow> ([], Fatal (Error_msg err))
                   | Inr cwd \<Rightarrow>
                       (let newDir = filepath_Dir w cwd @ ''/'' @ output_flag fl in
                        pre [MkdirEv newDir, ChdirEv newDir, Stdout ''Rendering image...'',
                             ProgressEv]
                          (complete (process w fl img)))))))"

section \<open>Reading a trace\<close>

fun quantize_call :: "event \<Rightarrow> (quantizer \<times> image_Image \<times> image_Paletted \<times> int \<times> bool \<times> bool) list" where
  "quantize_call (QuantizeEv q s d n b1 b2) = [(q, s, d, n, b1, b2)]"
| "quantize_call e = []"

text \<open>The calls of \<^verbatim>\<open>Quantize\<close> in a trace, each with its receiver and its five arguments.\<close>

definition quantize_calls :: "event list \<Rightarrow> (quantizer \<times> image_Image \<times> image_Paletted \<times> int \<times> bool \<times> bool) list" where
  "quantize_calls evs = concat (map quantize_call evs)"

fun allocation :: "event \<Rightarrow> image_Paletted list" where
  "allocation (NewPalettedEv d) = [d]"
| "allocation e = []"

text \<open>The paletted images a trace allocates.\<close>

definition allocations :: "event list \<Rightarrow> image_Paletted list" where
  "allocations evs = concat (map allocation evs)"

fun print :: "event \<Rightarrow> string list" where
  "print (Stdout s) = [s]"
| "print e = []"

text \<open>What a trace writes to standard output.\<close>

definition printed :: "event list \<Rightarrow> string list" where
  "printed evs = concat (map print evs)"

text \<open>The name main gives the output file when the type is \<open>jpg\<close> or \<open>png\<close>.\<close>

definition output_name :: "flags \<Rightarrow> string" where
  "output_name fl = (if noDither fl then ''output'' else ditherer fl) @ ''.'' @ imageType fl"

text \<open>The events of main between the checks of the arguments and the processing step.\<close>

definition preamble :: "world \<Rightarrow> flags \<Rightarrow> string \<Rightarrow> event list" where
  "preamble w fl cwd =
     [MkdirEv (filepath_Dir w cwd @ ''/'' @ output_flag fl),
      ChdirEv (filepath_Dir w cwd @ ''/'' @ output_flag fl),
      Stdout ''Rendering image...'', ProgressEv]"

section \<open>Sample inputs\<close>

text \<open>The flags at their defaults, lines 157 to 162.\<close>

definition default_flags :: flags where
  "default_flags =
     \<lparr>output_flag = ''output'', ditherer = ''FloydSteinberg'', imageType = ''jpg'',
      noDither = False, compression = 100, numColors = 256\<rparr>"

definition gray :: image_Image where
  "gray = \<lparr>Bounds = image_Rect 0 0 2 2, At = (\<lambda>x y. RGBA 128 128 128 255)\<rparr>"

text \<open>A world where every call succeeds: the flags parse to \<open>fl\<close>, the file decodes to
  \<open>gray\<close>, and \<^verbatim>\<open>Quantize\<close> hands back its source.\<close>

definition calm :: "flags \<Rightarrow> world" where
  "calm fl =
     \<lparr>flag_Parse = (\<lambda>args. Parsed fl),
      os_Open = (\<lambda>p. None),
      image_Decode = (\<lambda>p. (Some gray, None)),
      filepath_Dir = (\<lambda>p. ''/home/user''),
      filepath_Abs = (\<lambda>p. Inr ''/home/user/pics''),
      os_Create = (\<lambda>p. None),
      jpeg_Encode = (\<lambda>p m q. None),
      png_Encode = (\<lambda>p m. None),
      Quantize = (\<lambda>q s d n b1 b2. Some s)\<rparr>"

definition unknown_format :: error where
  "unknown_format = Error ''image: unknown format''"

section \<open>The kernels of the table\<close>

lemmas table_defs = dither_lookup_def dither_def kernel_sum_def within_tolerance_def
  shape_and_weights_def rows_def cols_def scaled_def

text \<open>
  C1, as the claim states it, fails: the weights of the Atkinson kernel sum to 6/8, which
  is not within 1e-6 of 1.
\<close>

theorem Atkinson_sum_outside_tolerance:
  "dither_lookup ''Atkinson'' =
     Some (Dither [[0, 0, 1 / 8, 1 / 8], [1 / 8, 1 / 8, 1 / 8, 0], [0, 1 / 8, 0, 0]])
   \<and> \<not> within_tolerance (Dither [[0, 0, 1 / 8, 1 / 8], [1 / 8, 1 / 8, 1 / 8, 0], [0, 1 / 8, 0, 0]])"
  by (simp add: table_defs)

text \<open>
  C1, amended: for every kernel of the dither table other than Atkinson and Burkes the
  weights sum to exactly 1, hence within 1e-6 of 1; the weights of Atkinson sum to 6/8.
\<close>

theorem kernel_sums_within_tolerance:
  "(\<forall>(n, k) \<in> set dither.
      n \<noteq> ''Atkinson'' \<and> n \<noteq> ''Burkes'' \<longrightarrow> kernel_sum k = 1 \<and> within_tolerance k)
   \<and> map_option kernel_sum (dither_lookup ''Atkinson'') = Some (6 / 8)"
  by (simp add: table_defs)

text \<open>The amended C1 at the Stucki kernel.\<close>

theorem kernel_sums_within_tolerance_witness:
  "(''Stucki'', Dither [[0, 0, 0, 8 / 42, 4 / 42],
                        [2 / 42, 4 / 42, 8 / 42, 4 / 42, 2 / 42],
                        [1 / 42, 2 / 42, 4 / 42, 2 / 42, 1 / 42]]) \<in> set dither
   \<and> kernel_sum (Dither [[0, 0, 0, 8 / 42, 4 / 42],
                         [2 / 42, 4 / 42, 8 / 42, 4 / 42, 2 / 42],
                         [1 / 42, 2 / 42, 4 / 42, 2 / 42, 1 / 42]]) = 1
   \<and> within_tolerance (Dither [[0, 0, 0, 8 / 42, 4 / 42],
                               [2 / 42, 4 / 42, 8 / 42, 4 / 42, 2 / 42],
                               [1 / 42, 2 / 42, 4 / 42, 2 / 42, 1 / 42]])"
proof -
  let ?k = "Dither [[0, 0, 0, 8 / 42, 4 / 42],
                    [2 / 42, 4 / 42, 8 / 42, 4 / 42, 2 / 42],
                    [1 / 42, 2 / 42, 4 / 42, 2 / 42, 1 / 42]]"
  have member: "(''Stucki'', ?k) \<in> set dither"
    by (simp add: dither_def)
  from kernel_sums_within_tolerance
  have "\<forall>(n, k) \<in> set dither.
          n \<noteq> ''Atkinson'' \<and> n \<noteq> ''Burkes'' \<longrightarrow> kernel_sum k = 1 \<and> within_tolerance k"
    by (rule conjunct1)
  from bspec [OF this member] have "kernel_sum ?k = 1 \<and> within_tolerance ?k"
    by simp
  with member show ?thesis by simp
qed

text \<open>
  C2: the table has exactly the seven names FloydSteinberg, Burkes, Stucki, Atkinson,
  Sierra-3, Sierra-2 and Sierra-Lite, and each kernel has the stated number of rows, the
  stated length of every row and, over its denominator (48, 32, 42, 8, 32, 16, 4), the
  numerators written in cli.go.
\<close>

theorem dither_table_contents:
  "set (map fst dither) =
     {''FloydSteinberg'', ''Burkes'', ''Stucki'', ''Atkinson'', ''Sierra-3'', ''Sierra-2'',
      ''Sierra-Lite''}
   \<and> length dither = 7
   \<and> shape_and_weights 48 ''FloydSteinberg'' =
       Some (3, [5, 5, 5], [[0, 0, 0, 7, 5], [3, 5, 7, 5, 3], [1, 3, 5, 3, 1]])
   \<and> shape_and_weights 32 ''Burkes'' =
       Some (4, [5, 5, 5, 5], [[0, 0, 0, 8, 4], [2, 4, 8, 4, 2], [0, 0, 0, 0, 0], [4, 8, 0, 0, 0]])
   \<and> shape_and_weights 42 ''Stucki'' =
       Some (3, [5, 5, 5], [[0, 0, 0, 8, 4], [2, 4, 8, 4, 2], [1, 2, 4, 2, 1]])
   \<and> shape_and_weights 8 ''Atkinson'' =
       Some (3, [4, 4, 4], [[0, 0, 1, 1], [1, 1, 1, 0], [0, 1, 0, 0]])
   \<and> shape_and_weights 32 ''Sierra-3'' =
       Some (3, [5, 5, 5], [[0, 0, 0, 5, 3], [2, 4, 5, 4, 2], [0, 2, 3, 2, 0]])
   \<and> shape_and_weights 16 ''Sierra-2'' =
       Some (3, [5, 5, 5], [[0, 0, 0, 4, 3], [1, 2, 3, 2, 1], [0, 0, 0, 0, 0]])
   \<and> shape_and_weights 4 ''Sierra-Lite'' =
       Some (3, [3, 3, 3], [[0, 0, 2], [1, 1, 0], [0, 0, 0]])"
  by (simp add: table_defs)

text \<open>
  C3 holds of Atkinson, whose weights sum to 6/8, and fails at Burkes: its weights sum to
  44/32, because of the fourth row; its first two rows alone sum to 1.
\<close>

theorem Burkes_weights_sum:
  "map_option kernel_sum (dither_lookup ''Burkes'') = Some (44 / 32)
   \<and> map_option (\<lambda>k. kernel_sum (Dither (take 2 (Filter k)))) (dither_lookup ''Burkes'') = Some 1
   \<and> map_option kernel_sum (dither_lookup ''Atkinson'') = Some (6 / 8)"
  by (simp add: table_defs)

section \<open>Facts about traces\<close>

lemma trace_simps:
  "quantize_calls [] = []"
  "quantize_calls (e # evs) = quantize_call e @ quantize_calls evs"
  "quantize_calls (xs @ ys) = quantize_calls xs @ quantize_calls ys"
  "allocations [] = []"
  "allocations (e # evs) = allocation e @ allocations evs"
  "allocations (xs @ ys) = allocations xs @ allocations ys"
  "printed [] = []"
  "printed (e # evs) = print e @ printed evs"
  "printed (xs @ ys) = printed xs @ printed ys"
  by (simp_all add: quantize_calls_def allocations_def printed_def)

lemma save_quiet:
  "quantize_calls (fst (Quantify_save w fl out q)) = []"
  "allocations (fst (Quantify_save w fl out q)) = []"
  "printed (fst (Quantify_save w fl out q)) = []"
  by (simp_all add: Quantify_save_def trace_simps split: option.splits)

lemma Quantify_calls:
  "quantize_calls (fst (Quantify w fl src out)) =
     (case src of
        None \<Rightarrow> []
      | Some s \<Rightarrow>
          (if noDither fl then
             [(NoDither, s, NewPaletted (image_Rect 0 0 (Dx (Bounds s)) (Dy (Bounds s))) WebSafe,
               numColors fl, False, True)]
           else
             (case dither_lookup (ditherer fl) of
                None \<Rightarrow> []
              | Some d \<Rightarrow>
                  [(Kernel d, s, NewPaletted (image_Rect 0 0 (Dx (Bounds s)) (Dy (Bounds s))) WebSafe,
                    numColors fl, True, True)])))"
  by (simp add: Quantify_def Let_def pre_def trace_simps save_quiet split: option.splits)

lemma Quantify_allocations:
  "allocations (fst (Quantify w fl src out)) =
     (case src of
        None \<Rightarrow> []
      | Some s \<Rightarrow> [NewPaletted (image_Rect 0 0 (Dx (Bounds s)) (Dy (Bounds s))) WebSafe])"
  by (simp add: Quantify_def Let_def pre_def trace_simps save_quiet split: option.splits)

lemma Quantify_printed: "printed (fst (Quantify w fl src out)) = []"
  by (simp add: Quantify_def Let_def pre_def trace_simps save_quiet split: option.splits)

lemma process_Quantify:
  "process w fl img =
     (if imageType fl = ''jpg'' \<or> imageType fl = ''png''
      then discard (Quantify w fl img (output_name fl)) else ([], Return ()))"
  by (simp add: process_def output_name_def)

lemma process_calls:
  "quantize_calls (fst (process w fl img)) =
     (if imageType fl = ''jpg'' \<or> imageType fl = ''png''
      then quantize_calls (fst (Quantify w fl img (output_name fl))) else [])"
  by (simp add: process_Quantify discard_def trace_simps)

lemma process_printed: "printed (fst (process w fl img)) = []"
  by (simp add: process_Quantify discard_def trace_simps Quantify_printed)

lemma complete_calls: "quantize_calls (fst (complete r)) = quantize_calls (fst r)"
  by (simp add: complete_def trace_simps split: outcome.splits)

lemma main_calls:
  "quantize_calls (fst (main w args)) = [] \<or>
   (\<exists>fl. flag_Parse w (drop 2 args) = Parsed fl \<and>
      quantize_calls (fst (main w args)) =
        quantize_calls (fst (process w fl (fst (Open w \<lparr>name = args ! 1\<rparr>)))))"
  by (simp add: main_def Let_def pre_def trace_simps complete_calls
        split: parse_result.splits sum.splits)

lemma main_calls_subset:
  assumes "flag_Parse w (drop 2 args) = Parsed fl"
  shows "set (quantize_calls (fst (main w args))) \<subseteq>
         set (quantize_calls (fst (Quantify w fl (fst (Open w \<lparr>name = args ! 1\<rparr>)) (output_name fl))))"
proof (cases "quantize_calls (fst (main w args)) = []")
  case True
  then show ?thesis by simp
next
  case False
  with main_calls [of w args] assms
  have "quantize_calls (fst (main w args)) =
      quantize_calls (fst (process w fl (fst (Open w \<lparr>name = args ! 1\<rparr>))))"
    by auto
  then show ?thesis
    by (auto simp: process_calls split: if_splits)
qed

lemma ball_subset: "A \<subseteq> B \<Longrightarrow> \<forall>x \<in> B. P x \<Longrightarrow> \<forall>x \<in> A. P x"
  by blast

lemma main_reaches:
  assumes "1 < length args" "args ! 1 \<noteq> ''--help''" "args ! 1 \<noteq> ''-h''"
    and "flag_Parse w (drop 2 args) = Parsed fl" "1 < numColors fl"
    and "filepath_Abs w (filepath_Dir w (args ! 1)) = Inr cwd"
  shows "main w args =
           pre (preamble w fl cwd) (complete (process w fl (fst (Open w \<lparr>name = args ! 1\<rparr>))))"
  using assms by (simp add: main_def Let_def preamble_def)


lemma main_reaches_calls:
  assumes "1 < length args" "args ! 1 \<noteq> ''--help''" "args ! 1 \<noteq> ''-h''"
    and "flag_Parse w (drop 2 args) = Parsed fl" "1 < numColors fl"
    and "filepath_Abs w (filepath_Dir w (args ! 1)) = Inr cwd"
  shows "quantize_calls (fst (main w args)) =
           (if imageType fl = ''jpg'' \<or> imageType fl = ''png''
            then quantize_calls (fst (Quantify w fl (fst (Open w \<lparr>name = args ! 1\<rparr>)) (output_name fl)))
            else [])"
proof -
  have "main w args =
      pre (preamble w fl cwd) (complete (process w fl (fst (Open w \<lparr>name = args ! 1\<rparr>))))"
    using assms by (rule main_reaches)
  then show ?thesis
    by (simp add: pre_def trace_simps complete_calls process_calls preamble_def)
qed

section \<open>The command line wrapper\<close>

lemmas sample_defs = calm_def default_flags_def gray_def

text \<open>
  C4 fails at \<open>numColors = 1\<close>: the test of line 178 is \<^verbatim>\<open>numColors <= 1\<close>, so
  a run with \<^verbatim>\<open>-palette 1\<close> ends in \<^verbatim>\<open>log.Fatal\<close> before anything is quantized,
  with a message that speaks of values less than 1.
\<close>

theorem main_rejects_one_color:
  "main (calm (default_flags\<lparr>numColors := 1\<rparr>)) [''cli'', ''in.png'', ''-palette'', ''1'']
     = ([], Fatal palette_message)
   \<and> palette_message = ''Color palette value cannot be less then 1''"
  by (simp add: main_def sample_defs palette_message_def)

text \<open>
  C5, as the claim states it, fails: a dithering-mode run of the command line with the
  unregistered kernel name Bayer and the type gif never calls \<^verbatim>\<open>Quantify\<close>, so the
  name is not validated and no error is shown; the run prints the completion message.
\<close>

theorem kernel_not_validated_counterexample:
  "\<not> noDither (default_flags\<lparr>ditherer := ''Bayer'', imageType := ''gif''\<rparr>)
   \<and> dither_lookup (ditherer (default_flags\<lparr>ditherer := ''Bayer'', imageType := ''gif''\<rparr>)) = None
   \<and> main (calm (default_flags\<lparr>ditherer := ''Bayer'', imageType := ''gif''\<rparr>))
       [''cli'', ''in.png'', ''-ditherer'', ''Bayer'', ''-type'', ''gif'']
     = ([MkdirEv ''/home/user/output'', ChdirEv ''/home/user/output'', Stdout ''Rendering image...'',
         ProgressEv, DoneSignalEv, Stdout done_message, StdoutElapsed], Return ())"
  by (simp add: main_def Open_def process_def complete_def pre_def Let_def sample_defs
        dither_lookup_def dither_def)

text \<open>
  C5, amended: in dithering mode (the flag no-dither false) every call of
  \<^verbatim>\<open>Quantify\<close> on a source image looks the kernel name up in the table before it calls
  \<^verbatim>\<open>Quantize\<close>: if the name is not a key the call ends in \<^verbatim>\<open>log.Fatal\<close> with
  "Invalid dithering method!" and makes no \<^verbatim>\<open>Quantize\<close> call, and if it is a key the
  call makes exactly one \<^verbatim>\<open>Quantize\<close> call, with the kernel registered under that name.
  So \<^verbatim>\<open>Quantize\<close> is only ever called with a registered kernel, in \<^verbatim>\<open>Quantify\<close> and
  in every run of main. A run of main that comes to the processing step with the type jpg
  or png and a decoded image ends in that \<^verbatim>\<open>log.Fatal\<close> when the name is not a key; a
  run whose type is neither jpg nor png calls neither \<^verbatim>\<open>Quantify\<close> nor
  \<^verbatim>\<open>Quantize\<close>, validates nothing and prints the completion message.
\<close>

theorem Quantify_validates_kernel:
  assumes "\<not> noDither fl"
  shows "(dither_lookup (ditherer fl) = None \<longrightarrow>
            Quantify w fl (Some s) out =
              ([NewPalettedEv (NewPaletted (image_Rect 0 0 (Dx (Bounds s)) (Dy (Bounds s))) WebSafe)],
               Fatal invalid_method))
       \<and> quantize_calls (fst (Quantify w fl (Some s) out)) =
           (case dither_lookup (ditherer fl) of
              None \<Rightarrow> []
            | Some d \<Rightarrow>
                [(Kernel d, s, NewPaletted (image_Rect 0 0 (Dx (Bounds s)) (Dy (Bounds s))) WebSafe,
                  numColors fl, True, True)])
       \<and> (\<forall>c \<in> set (quantize_calls (fst (Quantify w fl src out))).
             \<exists>d. fst c = Kernel d \<and> dither_lookup (ditherer fl) = Some d)
       \<and> (flag_Parse w (drop 2 args) = Parsed fl \<longrightarrow>
            (\<forall>c \<in> set (quantize_calls (fst (main w args))).
               \<exists>d. fst c = Kernel d \<and> dither_lookup (ditherer fl) = Some d))
       \<and> (1 < length args \<and> args ! 1 \<noteq> ''--help'' \<and> args ! 1 \<noteq> ''-h''
            \<and> flag_Parse w (drop 2 args) = Parsed fl \<and> 1 < numColors fl
            \<and> filepath_Abs w (filepath_Dir w (args ! 1)) = Inr cwd \<longrightarrow>
          (imageType fl = ''jpg'' \<or> imageType fl = ''png'' \<longrightarrow>
             fst (Open w \<lparr>name = args ! 1\<rparr>) = Some s \<longrightarrow>
             dither_lookup (ditherer fl) = None \<longrightarrow>
               main w args =
                 (preamble w fl cwd
                    @ [NewPalettedEv (NewPaletted (image_Rect 0 0 (Dx (Bounds s)) (Dy (Bounds s))) WebSafe)],
                  Fatal invalid_method))
          \<and> (imageType fl \<noteq> ''jpg'' \<and> imageType fl \<noteq> ''png'' \<longrightarrow>
               main w args =
                 (preamble w fl cwd @ [DoneSignalEv, Stdout done_message, StdoutElapsed], Return ())))"
proof (intro conjI impI)
  assume "dither_lookup (ditherer fl) = None"
  with assms show "Quantify w fl (Some s) out =
      ([NewPalettedEv (NewPaletted (image_Rect 0 0 (Dx (Bounds s)) (Dy (Bounds s))) WebSafe)],
       Fatal invalid_method)"
    by (simp add: Quantify_def)
next
  from assms show "quantize_calls (fst (Quantify w fl (Some s) out)) =
      (case dither_lookup (ditherer fl) of
         None \<Rightarrow> []
       | Some d \<Rightarrow>
           [(Kernel d, s, NewPaletted (image_Rect 0 0 (Dx (Bounds s)) (Dy (Bounds s))) WebSafe,
             numColors fl, True, True)])"
    by (simp add: Quantify_calls)
next
  from assms show registered: "\<forall>c \<in> set (quantize_calls (fst (Quantify w fl src out))).
      \<exists>d. fst c = Kernel d \<and> dither_lookup (ditherer fl) = Some d" for src out
    by (auto simp: Quantify_calls split: option.splits)
  assume parsed: "flag_Parse w (drop 2 args) = Parsed fl"
  show "\<forall>c \<in> set (quantize_calls (fst (main w args))).
      \<exists>d. fst c = Kernel d \<and> dither_lookup (ditherer fl) = Some d"
    by (rule ball_subset [OF main_calls_subset [OF parsed] registered])
next
  assume reach: "1 < length args \<and> args ! 1 \<noteq> ''--help'' \<and> args ! 1 \<noteq> ''-h''
      \<and> flag_Parse w (drop 2 args) = Parsed fl \<and> 1 < numColors fl
      \<and> filepath_Abs w (filepath_Dir w (args ! 1)) = Inr cwd"
  then have run: "main w args =
      pre (preamble w fl cwd) (complete (process w fl (fst (Open w \<lparr>name = args ! 1\<rparr>))))"
    by (intro main_reaches) simp_all
  {
    assume "imageType fl = ''jpg'' \<or> imageType fl = ''png''"
      and "fst (Open w \<lparr>name = args ! 1\<rparr>) = Some s"
      and "dither_lookup (ditherer fl) = None"
    with assms show "main w args =
        (preamble w fl cwd
           @ [NewPalettedEv (NewPaletted (image_Rect 0 0 (Dx (Bounds s)) (Dy (Bounds s))) WebSafe)],
         Fatal invalid_method)"
      by (simp add: run process_Quantify Quantify_def discard_def complete_def pre_def)
  }
  {
    assume "imageType fl \<noteq> ''jpg'' \<and> imageType fl \<noteq> ''png''"
    then show "main w args =
        (preamble w fl cwd @ [DoneSignalEv, Stdout done_message, StdoutElapsed], Return ())"
      by (simp add: run process_Quantify complete_def pre_def)
  }
qed

text \<open>
  The amended C5 at the unregistered name Bayer, in a direct call and in a run of main
  with the type jpg, and at the registered name FloydSteinberg.
\<close>

theorem Quantify_validates_kernel_witness:
  "\<not> noDither (default_flags\<lparr>ditherer := ''Bayer''\<rparr>)
   \<and> dither_lookup (ditherer (default_flags\<lparr>ditherer := ''Bayer''\<rparr>)) = None
   \<and> Quantify (calm (default_flags\<lparr>ditherer := ''Bayer''\<rparr>))
        (default_flags\<lparr>ditherer := ''Bayer''\<rparr>) (Some gray) ''Bayer.jpg''
       = ([NewPalettedEv (NewPaletted (image_Rect 0 0 2 2) WebSafe)], Fatal invalid_method)
   \<and> 1 < length [''cli'', ''in.png'', ''-ditherer'', ''Bayer'']
   \<and> imageType (default_flags\<lparr>ditherer := ''Bayer''\<rparr>) = ''jpg''
   \<and> fst (Open (calm (default_flags\<lparr>ditherer := ''Bayer''\<rparr>)) \<lparr>name = ''in.png''\<rparr>) = Some gray
   \<and> snd (main (calm (default_flags\<lparr>ditherer := ''Bayer''\<rparr>))
        [''cli'', ''in.png'', ''-ditherer'', ''Bayer'']) = Fatal invalid_method
   \<and> \<not> noDither default_flags
   \<and> quantize_calls (fst (Quantify (calm default_flags) default_flags (Some gray)
        ''FloydSteinberg.jpg''))
       = [(Kernel (Dither [[0, 0, 0, 7 / 48, 5 / 48],
                           [3 / 48, 5 / 48, 7 / 48, 5 / 48, 3 / 48],
                           [1 / 48, 3 / 48, 5 / 48, 3 / 48, 1 / 48]]),
           gray, NewPaletted (image_Rect 0 0 2 2) WebSafe, 256, True, True)]"
proof -
  let ?fl = "default_flags\<lparr>ditherer := ''Bayer''\<rparr>"
  let ?w = "calm ?fl"
  let ?args = "[''cli'', ''in.png'', ''-ditherer'', ''Bayer'']"
  have same: "image_Rect 0 0 (Dx (Bounds gray)) (Dy (Bounds gray)) = image_Rect 0 0 2 2"
    by (simp add: gray_def Dx_def Dy_def image_Rect_def)
  have mode: "\<not> noDither ?fl" and mode': "\<not> noDither default_flags"
    by (simp_all add: default_flags_def)
  have unknown: "dither_lookup (ditherer ?fl) = None"
    by (simp add: default_flags_def dither_lookup_def dither_def)
  have reach: "1 < length ?args \<and> ?args ! 1 \<noteq> ''--help'' \<and> ?args ! 1 \<noteq> ''-h''
      \<and> flag_Parse ?w (drop 2 ?args) = Parsed ?fl \<and> 1 < numColors ?fl
      \<and> filepath_Abs ?w (filepath_Dir ?w (?args ! 1)) = Inr ''/home/user/pics''"
    by (simp add: calm_def default_flags_def)
  have jpg: "imageType ?fl = ''jpg''"
    by (simp add: default_flags_def)
  have opened: "fst (Open ?w \<lparr>name = ''in.png''\<rparr>) = Some gray"
    by (simp add: Open_def calm_def)
  have nth: "?args ! 1 = ''in.png''"
    by simp
  note bayer = Quantify_validates_kernel
    [OF mode, of ?w gray "''Bayer.jpg''" "Some gray" ?args "''/home/user/pics''"]
  from bayer unknown have direct: "Quantify ?w ?fl (Some gray) ''Bayer.jpg''
      = ([NewPalettedEv (NewPaletted (image_Rect 0 0 2 2) WebSafe)], Fatal invalid_method)"
    by (simp add: same)
  from bayer reach jpg opened unknown have "main ?w ?args =
      (preamble ?w ?fl ''/home/user/pics''
         @ [NewPalettedEv (NewPaletted (image_Rect 0 0 (Dx (Bounds gray)) (Dy (Bounds gray))) WebSafe)],
       Fatal invalid_method)"
    by (simp only: nth) blast
  then have run: "snd (main ?w ?args) = Fatal invalid_method"
    by simp
  from Quantify_validates_kernel
    [OF mode', of "calm default_flags" gray "''FloydSteinberg.jpg''" "Some gray" "[]" "[]"]
  have "quantize_calls (fst (Quantify (calm default_flags) default_flags (Some gray)
        ''FloydSteinberg.jpg'')) =
      (case dither_lookup (ditherer default_flags) of
         None \<Rightarrow> []
       | Some d \<Rightarrow>
           [(Kernel d, gray,
             NewPaletted (image_Rect 0 0 (Dx (Bounds gray)) (Dy (Bounds gray))) WebSafe,
             numColors default_flags, True, True)])"
    by blast
  then have call: "quantize_calls (fst (Quantify (calm default_flags) default_flags (Some gray)
        ''FloydSteinberg.jpg''))
       = [(Kernel (Dither [[0, 0, 0, 7 / 48, 5 / 48],
                           [3 / 48, 5 / 48, 7 / 48, 5 / 48, 3 / 48],
                           [1 / 48, 3 / 48, 5 / 48, 3 / 48, 1 / 48]]),
           gray, NewPaletted (image_Rect 0 0 2 2) WebSafe, 256, True, True)]"
    by (simp add: same default_flags_def dither_lookup_def dither_def)
  from mode unknown direct jpg opened run mode' call show ?thesis
    by simp
qed

text \<open>
  C6 fails in main: \<^verbatim>\<open>Open\<close> returns the error of the decoder, and line 175 drops it
  (\<^verbatim>\<open>img, _ := input.Open()\<close>). With an undecodable input and a type other than jpg and
  png the run prints the completion message and returns; with the default type it
  calls \<^verbatim>\<open>Quantify\<close> on the nil image and panics.
\<close>

theorem main_drops_decode_error:
  "Open (calm default_flags\<lparr>image_Decode := \<lambda>p. (None, Some unknown_format)\<rparr>) \<lparr>name = ''in.png''\<rparr>
     = (None, Some unknown_format)
   \<and> main (calm (default_flags\<lparr>imageType := ''gif''\<rparr>)\<lparr>image_Decode := \<lambda>p. (None, Some unknown_format)\<rparr>)
       [''cli'', ''in.png'', ''-type'', ''gif'']
     = ([MkdirEv ''/home/user/output'', ChdirEv ''/home/user/output'', Stdout ''Rendering image...'',
         ProgressEv, DoneSignalEv, Stdout done_message, StdoutElapsed], Return ())
   \<and> main (calm default_flags\<lparr>image_Decode := \<lambda>p. (None, Some unknown_format)\<rparr>) [''cli'', ''in.png'']
     = ([MkdirEv ''/home/user/output'', ChdirEv ''/home/user/output'', Stdout ''Rendering image...'',
         ProgressEv], Panic nil_dereference)"
  by (simp add: main_def Open_def process_def complete_def discard_def Quantify_def pre_def
        Let_def sample_defs)

text \<open>
  C7: \<^verbatim>\<open>Quantify\<close> on a source image makes exactly one call of \<^verbatim>\<open>Quantize\<close> in
  no-dither mode, with the trailing booleans false and true, and exactly one call in
  dithering mode with a registered kernel, with the trailing booleans true and true (and no
  call otherwise). So in every call of \<^verbatim>\<open>Quantize\<close> that \<^verbatim>\<open>Quantify\<close> makes, and in
  every call of a run of main, the first trailing boolean is false exactly when no-dither
  mode is selected (the receiver is then \<^verbatim>\<open>NoDither\<close>) and true otherwise, and the
  second is true; the calls of a run of main that comes to the processing step are those
  of its one \<^verbatim>\<open>Quantify\<close> call.
\<close>

theorem Quantize_trailing_flags:
  "quantize_calls (fst (Quantify w fl (Some s) out)) =
     (if noDither fl then
        [(NoDither, s, NewPaletted (image_Rect 0 0 (Dx (Bounds s)) (Dy (Bounds s))) WebSafe,
          numColors fl, False, True)]
      else
        (case dither_lookup (ditherer fl) of
           None \<Rightarrow> []
         | Some d \<Rightarrow>
             [(Kernel d, s, NewPaletted (image_Rect 0 0 (Dx (Bounds s)) (Dy (Bounds s))) WebSafe,
               numColors fl, True, True)]))
   \<and> quantize_calls (fst (Quantify w fl None out)) = []
   \<and> (\<forall>(q, s, d, n, b1, b2) \<in> set (quantize_calls (fst (Quantify w fl src out))).
        b1 = (\<not> noDither fl) \<and> b2 \<and> (q = NoDither) = noDither fl)
   \<and> (flag_Parse w (drop 2 args) = Parsed fl \<longrightarrow>
        (\<forall>(q, s, d, n, b1, b2) \<in> set (quantize_calls (fst (main w args))).
           b1 = (\<not> noDither fl) \<and> b2 \<and> (q = NoDither) = noDither fl))
   \<and> (1 < length args \<and> args ! 1 \<noteq> ''--help'' \<and> args ! 1 \<noteq> ''-h''
        \<and> flag_Parse w (drop 2 args) = Parsed fl \<and> 1 < numColors fl
        \<and> filepath_Abs w (filepath_Dir w (args ! 1)) = Inr cwd \<longrightarrow>
      quantize_calls (fst (main w args)) =
        (if imageType fl = ''jpg'' \<or> imageType fl = ''png''
         then quantize_calls
                (fst (Quantify w fl (fst (Open w \<lparr>name = args ! 1\<rparr>)) (output_name fl)))
         else []))"
proof (intro conjI impI)
  show "quantize_calls (fst (Quantify w fl (Some s) out)) =
     (if noDither fl then
        [(NoDither, s, NewPaletted (image_Rect 0 0 (Dx (Bounds s)) (Dy (Bounds s))) WebSafe,
          numColors fl, False, True)]
      else
        (case dither_lookup (ditherer fl) of
           None \<Rightarrow> []
         | Some d \<Rightarrow>
             [(Kernel d, s, NewPaletted (image_Rect 0 0 (Dx (Bounds s)) (Dy (Bounds s))) WebSafe,
               numColors fl, True, True)]))"
    by (simp add: Quantify_calls)
  show "quantize_calls (fst (Quantify w fl None out)) = []"
    by (simp add: Quantify_calls)
  show wrapper: "\<forall>(q, s, d, n, b1, b2) \<in> set (quantize_calls (fst (Quantify w fl src out))).
      b1 = (\<not> noDither fl) \<and> b2 \<and> (q = NoDither) = noDither fl" for src out
    by (auto simp: Quantify_calls split: option.splits if_splits)
  {
    assume parsed: "flag_Parse w (drop 2 args) = Parsed fl"
    show "\<forall>(q, s, d, n, b1, b2) \<in> set (quantize_calls (fst (main w args))).
        b1 = (\<not> noDither fl) \<and> b2 \<and> (q = NoDither) = noDither fl"
      by (rule ball_subset [OF main_calls_subset [OF parsed] wrapper])
  }
  {
    assume "1 < length args \<and> args ! 1 \<noteq> ''--help'' \<and> args ! 1 \<noteq> ''-h''
        \<and> flag_Parse w (drop 2 args) = Parsed fl \<and> 1 < numColors fl
        \<and> filepath_Abs w (filepath_Dir w (args ! 1)) = Inr cwd"
    then show "quantize_calls (fst (main w args)) =
        (if imageType fl = ''jpg'' \<or> imageType fl = ''png''
         then quantize_calls
                (fst (Quantify w fl (fst (Open w \<lparr>name = args ! 1\<rparr>)) (output_name fl)))
         else [])"
      by (intro main_reaches_calls) simp_all
  }
qed

text \<open>
  C7 at a call in dithering mode, at a call in no-dither mode and at a run of main.
\<close>

theorem Quantize_trailing_flags_witness:
  "quantize_calls (fst (Quantify (calm default_flags) default_flags (Some gray)
        ''FloydSteinberg.jpg''))
     = [(Kernel (Dither [[0, 0, 0, 7 / 48, 5 / 48],
                         [3 / 48, 5 / 48, 7 / 48, 5 / 48, 3 / 48],
                         [1 / 48, 3 / 48, 5 / 48, 3 / 48, 1 / 48]]),
         gray, NewPaletted (image_Rect 0 0 2 2) WebSafe, 256, True, True)]
   \<and> quantize_calls (fst (Quantify (calm (default_flags\<lparr>noDither := True\<rparr>))
        (default_flags\<lparr>noDither := True\<rparr>) (Some gray) ''output.jpg''))
     = [(NoDither, gray, NewPaletted (image_Rect 0 0 2 2) WebSafe, 256, False, True)]
   \<and> flag_Parse (calm (default_flags\<lparr>noDither := True\<rparr>)) (drop 2 [''cli'', ''in.png'', ''-no-dither''])
     = Parsed (default_flags\<lparr>noDither := True\<rparr>)
   \<and> quantize_calls (fst (main (calm (default_flags\<lparr>noDither := True\<rparr>))
        [''cli'', ''in.png'', ''-no-dither'']))
     = [(NoDither, gray, NewPaletted (image_Rect 0 0 2 2) WebSafe, 256, False, True)]"
proof -
  let ?fl = "default_flags\<lparr>noDither := True\<rparr>"
  let ?w = "calm ?fl"
  let ?args = "[''cli'', ''in.png'', ''-no-dither'']"
  have same: "image_Rect 0 0 (Dx (Bounds gray)) (Dy (Bounds gray)) = image_Rect 0 0 2 2"
    by (simp add: gray_def Dx_def Dy_def image_Rect_def)
  have kernel: "dither_lookup (ditherer default_flags) =
      Some (Dither [[0, 0, 0, 7 / 48, 5 / 48],
                    [3 / 48, 5 / 48, 7 / 48, 5 / 48, 3 / 48],
                    [1 / 48, 3 / 48, 5 / 48, 3 / 48, 1 / 48]])"
    by (simp add: default_flags_def dither_lookup_def dither_def)
  from Quantize_trailing_flags
    [of "calm default_flags" default_flags gray "''FloydSteinberg.jpg''" "Some gray" "[]" "[]"]
  have "quantize_calls (fst (Quantify (calm default_flags) default_flags (Some gray)
        ''FloydSteinberg.jpg'')) =
     (if noDither default_flags then
        [(NoDither, gray,
          NewPaletted (image_Rect 0 0 (Dx (Bounds gray)) (Dy (Bounds gray))) WebSafe,
          numColors default_flags, False, True)]
      else
        (case dither_lookup (ditherer default_flags) of
           None \<Rightarrow> []
         | Some d \<Rightarrow>
             [(Kernel d, gray,
               NewPaletted (image_Rect 0 0 (Dx (Bounds gray)) (Dy (Bounds gray))) WebSafe,
               numColors default_flags, True, True)]))"
    by (rule conjunct1)
  then have dithered: "quantize_calls (fst (Quantify (calm default_flags) default_flags (Some gray)
        ''FloydSteinberg.jpg''))
     = [(Kernel (Dither [[0, 0, 0, 7 / 48, 5 / 48],
                         [3 / 48, 5 / 48, 7 / 48, 5 / 48, 3 / 48],
                         [1 / 48, 3 / 48, 5 / 48, 3 / 48, 1 / 48]]),
         gray, NewPaletted (image_Rect 0 0 2 2) WebSafe, 256, True, True)]"
    by (simp add: kernel same) (simp add: default_flags_def)
  note plain = Quantize_trailing_flags
    [of ?w ?fl gray "''output.jpg''" "Some gray" ?args "''/home/user/pics''"]
  from plain have "quantize_calls (fst (Quantify ?w ?fl (Some gray) ''output.jpg'')) =
     (if noDither ?fl then
        [(NoDither, gray,
          NewPaletted (image_Rect 0 0 (Dx (Bounds gray)) (Dy (Bounds gray))) WebSafe,
          numColors ?fl, False, True)]
      else
        (case dither_lookup (ditherer ?fl) of
           None \<Rightarrow> []
         | Some d \<Rightarrow>
             [(Kernel d, gray,
               NewPaletted (image_Rect 0 0 (Dx (Bounds gray)) (Dy (Bounds gray))) WebSafe,
               numColors ?fl, True, True)]))"
    by (rule conjunct1)
  then have undithered: "quantize_calls (fst (Quantify ?w ?fl (Some gray) ''output.jpg''))
     = [(NoDither, gray, NewPaletted (image_Rect 0 0 2 2) WebSafe, 256, False, True)]"
    by (simp add: same default_flags_def)
  have parsed: "flag_Parse ?w (drop 2 ?args) = Parsed ?fl"
    by (simp add: calm_def)
  have reach: "1 < length ?args \<and> ?args ! 1 \<noteq> ''--help'' \<and> ?args ! 1 \<noteq> ''-h''
      \<and> flag_Parse ?w (drop 2 ?args) = Parsed ?fl \<and> 1 < numColors ?fl
      \<and> filepath_Abs ?w (filepath_Dir ?w (?args ! 1)) = Inr ''/home/user/pics''"
    by (simp add: calm_def default_flags_def)
  have opened: "fst (Open ?w \<lparr>name = ?args ! 1\<rparr>) = Some gray"
    by (simp add: Open_def calm_def)
  have named: "output_name ?fl = ''output.jpg''"
    by (simp add: output_name_def default_flags_def)
  have jpg: "imageType ?fl = ''jpg''"
    by (simp add: default_flags_def)
  from plain reach have "quantize_calls (fst (main ?w ?args)) =
        (if imageType ?fl = ''jpg'' \<or> imageType ?fl = ''png''
         then quantize_calls
                (fst (Quantify ?w ?fl (fst (Open ?w \<lparr>name = ?args ! 1\<rparr>)) (output_name ?fl)))
         else [])"
    by blast
  then have run: "quantize_calls (fst (main ?w ?args))
     = [(NoDither, gray, NewPaletted (image_Rect 0 0 2 2) WebSafe, 256, False, True)]"
    by (simp only: opened named jpg undithered) simp
  from dithered undithered parsed run show ?thesis
    by simp
qed

text \<open>
  C8: in every invocation of \<^verbatim>\<open>Quantify\<close>, whatever \<open>numColors\<close> is, the paletted
  image it constructs has the palette WebSafe of 216 colours and the rectangle
  \<^verbatim>\<open>image.Rect(0, 0, Dx, Dy)\<close> of the source's bounds, so the width and height of the
  source; it is the destination of every \<^verbatim>\<open>Quantize\<close> call. On a source image exactly
  one such image is constructed; on the nil image \<^verbatim>\<open>Quantify\<close> panics at
  \<^verbatim>\<open>src.Bounds()\<close> and constructs nothing.
\<close>

theorem Quantify_destination:
  "(\<forall>d \<in> set (allocations (fst (Quantify w fl src out))).
      Palette d = WebSafe \<and> length (Palette d) = 216
      \<and> (\<exists>s. src = Some s
            \<and> Rect d = image_Rect 0 0 (Dx (Bounds s)) (Dy (Bounds s))
            \<and> Dx (Rect d) = \<bar>Dx (Bounds s)\<bar> \<and> Dy (Rect d) = \<bar>Dy (Bounds s)\<bar>
            \<and> (0 \<le> Dx (Bounds s) \<and> 0 \<le> Dy (Bounds s) \<longrightarrow>
                 Rect d = \<lparr>Min_pt = \<lparr>X = 0, Y = 0\<rparr>,
                           Max_pt = \<lparr>X = Dx (Bounds s), Y = Dy (Bounds s)\<rparr>\<rparr>)))
   \<and> (\<forall>(q, s', d, rest) \<in> set (quantize_calls (fst (Quantify w fl src out))).
         d \<in> set (allocations (fst (Quantify w fl src out))))
   \<and> allocations (fst (Quantify w (fl\<lparr>numColors := n\<rparr>) src out)) =
       allocations (fst (Quantify w fl src out))
   \<and> allocations (fst (Quantify w fl (Some s) out)) =
       [NewPaletted (image_Rect 0 0 (Dx (Bounds s)) (Dy (Bounds s))) WebSafe]
   \<and> Quantify w fl None out = ([], Panic nil_dereference)"
proof (intro conjI)
  have "length WebSafe = 216"
    by (simp add: WebSafe_def)
  then show "\<forall>d \<in> set (allocations (fst (Quantify w fl src out))).
      Palette d = WebSafe \<and> length (Palette d) = 216
      \<and> (\<exists>s. src = Some s
            \<and> Rect d = image_Rect 0 0 (Dx (Bounds s)) (Dy (Bounds s))
            \<and> Dx (Rect d) = \<bar>Dx (Bounds s)\<bar> \<and> Dy (Rect d) = \<bar>Dy (Bounds s)\<bar>
            \<and> (0 \<le> Dx (Bounds s) \<and> 0 \<le> Dy (Bounds s) \<longrightarrow>
                 Rect d = \<lparr>Min_pt = \<lparr>X = 0, Y = 0\<rparr>,
                           Max_pt = \<lparr>X = Dx (Bounds s), Y = Dy (Bounds s)\<rparr>\<rparr>))"
    by (cases src) (simp_all add: Quantify_allocations NewPaletted_def image_Rect_def Dx_def Dy_def)
  show "\<forall>(q, s', d, rest) \<in> set (quantize_calls (fst (Quantify w fl src out))).
         d \<in> set (allocations (fst (Quantify w fl src out)))"
    by (auto simp: Quantify_calls Quantify_allocations split: option.splits if_splits)
  show "allocations (fst (Quantify w (fl\<lparr>numColors := n\<rparr>) src out)) =
       allocations (fst (Quantify w fl src out))"
    by (simp add: Quantify_allocations)
  show "allocations (fst (Quantify w fl (Some s) out)) =
      [NewPaletted (image_Rect 0 0 (Dx (Bounds s)) (Dy (Bounds s))) WebSafe]"
    by (simp add: Quantify_allocations)
  show "Quantify w fl None out = ([], Panic nil_dereference)"
    by (simp add: Quantify_def)
qed

text \<open>
  C8 at the image \<open>gray\<close> with two colours requested.
\<close>

theorem Quantify_destination_witness:
  "NewPaletted (image_Rect 0 0 2 2) WebSafe
     \<in> set (allocations (fst (Quantify (calm default_flags) (default_flags\<lparr>numColors := 2\<rparr>)
          (Some gray) ''FloydSteinberg.jpg'')))
   \<and> Palette (NewPaletted (image_Rect 0 0 2 2) WebSafe) = WebSafe
   \<and> length (Palette (NewPaletted (image_Rect 0 0 2 2) WebSafe)) = 216
   \<and> 0 \<le> Dx (Bounds gray) \<and> 0 \<le> Dy (Bounds gray)
   \<and> Rect (NewPaletted (image_Rect 0 0 2 2) WebSafe) =
       \<lparr>Min_pt = \<lparr>X = 0, Y = 0\<rparr>, Max_pt = \<lparr>X = Dx (Bounds gray), Y = Dy (Bounds gray)\<rparr>\<rparr>"
proof -
  let ?fl = "default_flags\<lparr>numColors := 2\<rparr>"
  let ?d = "NewPaletted (image_Rect 0 0 2 2) WebSafe"
  let ?run = "Quantify (calm default_flags) ?fl (Some gray) ''FloydSteinberg.jpg''"
  have size: "0 \<le> Dx (Bounds gray) \<and> 0 \<le> Dy (Bounds gray)"
    by (simp add: gray_def Dx_def Dy_def image_Rect_def)
  have same: "image_Rect 0 0 (Dx (Bounds gray)) (Dy (Bounds gray)) = image_Rect 0 0 2 2"
    by (simp add: gray_def Dx_def Dy_def image_Rect_def)
  note run = Quantify_destination
    [of "calm default_flags" ?fl "Some gray" "''FloydSteinberg.jpg''" 0 gray]
  from run have "allocations (fst ?run) =
      [NewPaletted (image_Rect 0 0 (Dx (Bounds gray)) (Dy (Bounds gray))) WebSafe]"
    by blast
  then have member: "?d \<in> set (allocations (fst ?run))"
    by (simp only: same list.set insertI1)
  from run have "\<forall>d \<in> set (allocations (fst ?run)).
      Palette d = WebSafe \<and> length (Palette d) = 216
      \<and> (\<exists>s. Some gray = Some s
            \<and> Rect d = image_Rect 0 0 (Dx (Bounds s)) (Dy (Bounds s))
            \<and> Dx (Rect d) = \<bar>Dx (Bounds s)\<bar> \<and> Dy (Rect d) = \<bar>Dy (Bounds s)\<bar>
            \<and> (0 \<le> Dx (Bounds s) \<and> 0 \<le> Dy (Bounds s) \<longrightarrow>
                 Rect d = \<lparr>Min_pt = \<lparr>X = 0, Y = 0\<rparr>,
                           Max_pt = \<lparr>X = Dx (Bounds s), Y = Dy (Bounds s)\<rparr>\<rparr>))"
    by (rule conjunct1)
  from bspec [OF this member]
  have "Palette ?d = WebSafe \<and> length (Palette ?d) = 216
      \<and> (0 \<le> Dx (Bounds gray) \<and> 0 \<le> Dy (Bounds gray) \<longrightarrow>
           Rect ?d = \<lparr>Min_pt = \<lparr>X = 0, Y = 0\<rparr>,
                      Max_pt = \<lparr>X = Dx (Bounds gray), Y = Dy (Bounds gray)\<rparr>\<rparr>)"
    by blast
  with size member show ?thesis
    by blast
qed

text \<open>
  C9, as the claim states it, fails: with the type gif, a call of \<^verbatim>\<open>Quantify\<close> whose
  \<^verbatim>\<open>os.Create\<close> fails returns that error and no image (line 136), and a call with an
  unregistered kernel name ends in \<^verbatim>\<open>log.Fatal\<close> before any file is created.
\<close>

theorem unrecognized_type_counterexample:
  "imageType (default_flags\<lparr>imageType := ''gif''\<rparr>) \<noteq> ''jpg''
   \<and> imageType (default_flags\<lparr>imageType := ''gif''\<rparr>) \<noteq> ''png''
   \<and> Quantify (calm default_flags\<lparr>os_Create := \<lambda>p. Some (Error ''permission denied'')\<rparr>)
        (default_flags\<lparr>imageType := ''gif'', noDither := True\<rparr>) (Some gray) ''output.gif''
      = ([NewPalettedEv (NewPaletted (image_Rect 0 0 2 2) WebSafe),
          QuantizeEv NoDither gray (NewPaletted (image_Rect 0 0 2 2) WebSafe) 256 False True],
         Return (None, Some (Error ''permission denied'')))
   \<and> Quantify (calm default_flags) (default_flags\<lparr>imageType := ''gif'', ditherer := ''Bayer''\<rparr>)
        (Some gray) ''Bayer.gif''
      = ([NewPalettedEv (NewPaletted (image_Rect 0 0 2 2) WebSafe)], Fatal invalid_method)"
  by (simp add: Quantify_def Quantify_save_def pre_def Let_def sample_defs dither_lookup_def
        dither_def Dx_def Dy_def image_Rect_def)

text \<open>
  C9, amended: if the configured image type is neither jpg nor png, the second half of
  \<^verbatim>\<open>Quantify\<close> calls no encoder; when \<^verbatim>\<open>os.Create\<close> succeeds it creates the file,
  closes it and returns the quantized image with a nil error, and when \<^verbatim>\<open>os.Create\<close>
  fails it returns that error with no image. So does every call of \<^verbatim>\<open>Quantify\<close> that
  comes to the second half (a source image, and no-dither mode or a registered kernel).
\<close>

theorem Quantify_unrecognized_type:
  assumes "imageType fl \<noteq> ''jpg''" and "imageType fl \<noteq> ''png''"
  shows "(os_Create w out = None \<longrightarrow>
            Quantify_save w fl out quant = ([CreateEv out, CloseEv out], Return (quant, None)))
       \<and> (os_Create w out = Some err \<longrightarrow>
            Quantify_save w fl out quant = ([], Return (None, Some err)))
       \<and> (os_Create w out = None \<longrightarrow> noDither fl \<longrightarrow>
            Quantify w fl (Some s) out =
              ([NewPalettedEv (NewPaletted (image_Rect 0 0 (Dx (Bounds s)) (Dy (Bounds s))) WebSafe),
                QuantizeEv NoDither s
                  (NewPaletted (image_Rect 0 0 (Dx (Bounds s)) (Dy (Bounds s))) WebSafe)
                  (numColors fl) False True,
                CreateEv out, CloseEv out],
               Return (Quantize w NoDither s
                  (NewPaletted (image_Rect 0 0 (Dx (Bounds s)) (Dy (Bounds s))) WebSafe)
                  (numColors fl) False True, None)))
       \<and> (os_Create w out = None \<longrightarrow> \<not> noDither fl \<longrightarrow> dither_lookup (ditherer fl) = Some d \<longrightarrow>
            Quantify w fl (Some s) out =
              ([NewPalettedEv (NewPaletted (image_Rect 0 0 (Dx (Bounds s)) (Dy (Bounds s))) WebSafe),
                QuantizeEv (Kernel d) s
                  (NewPaletted (image_Rect 0 0 (Dx (Bounds s)) (Dy (Bounds s))) WebSafe)
                  (numColors fl) True True,
                CreateEv out, CloseEv out],
               Return (Quantize w (Kernel d) s
                  (NewPaletted (image_Rect 0 0 (Dx (Bounds s)) (Dy (Bounds s))) WebSafe)
                  (numColors fl) True True, None)))"
proof -
  from assms have created:
    "os_Create w out = None \<Longrightarrow>
       Quantify_save w fl out q = ([CreateEv out, CloseEv out], Return (q, None))" for q
    by (simp add: Quantify_save_def)
  have refused:
    "os_Create w out = Some err \<Longrightarrow> Quantify_save w fl out quant = ([], Return (None, Some err))"
    by (simp add: Quantify_save_def)
  from created refused show ?thesis
    by (simp add: Quantify_def Let_def pre_def)
qed

text \<open>
  The amended C9 at the type gif, in a world where the file can be created.
\<close>

theorem Quantify_unrecognized_type_witness:
  "imageType (default_flags\<lparr>imageType := ''gif''\<rparr>) \<noteq> ''jpg''
   \<and> imageType (default_flags\<lparr>imageType := ''gif''\<rparr>) \<noteq> ''png''
   \<and> os_Create (calm default_flags) ''FloydSteinberg.gif'' = None
   \<and> \<not> noDither (default_flags\<lparr>imageType := ''gif''\<rparr>)
   \<and> snd (Quantify (calm default_flags) (default_flags\<lparr>imageType := ''gif''\<rparr>) (Some gray)
          ''FloydSteinberg.gif'') = Return (Some gray, None)
   \<and> drop 2 (fst (Quantify (calm default_flags) (default_flags\<lparr>imageType := ''gif''\<rparr>) (Some gray)
          ''FloydSteinberg.gif'')) = [CreateEv ''FloydSteinberg.gif'', CloseEv ''FloydSteinberg.gif'']"
proof -
  let ?fl = "default_flags\<lparr>imageType := ''gif''\<rparr>"
  let ?k = "Dither [[0, 0, 0, 7 / 48, 5 / 48],
                    [3 / 48, 5 / 48, 7 / 48, 5 / 48, 3 / 48],
                    [1 / 48, 3 / 48, 5 / 48, 3 / 48, 1 / 48]]"
  have jpg: "imageType ?fl \<noteq> ''jpg''" and png: "imageType ?fl \<noteq> ''png''"
    by (simp_all add: default_flags_def)
  have created: "os_Create (calm default_flags) ''FloydSteinberg.gif'' = None"
    by (simp add: calm_def)
  have mode: "\<not> noDither ?fl"
    by (simp add: default_flags_def)
  have kernel: "dither_lookup (ditherer ?fl) = Some ?k"
    by (simp add: default_flags_def dither_lookup_def dither_def)
  from Quantify_unrecognized_type
    [OF jpg png, of "calm default_flags" "''FloydSteinberg.gif''" None "Error []" gray ?k]
    created mode kernel
  have "Quantify (calm default_flags) ?fl (Some gray) ''FloydSteinberg.gif'' =
      ([NewPalettedEv (NewPaletted (image_Rect 0 0 (Dx (Bounds gray)) (Dy (Bounds gray))) WebSafe),
        QuantizeEv (Kernel ?k) gray
          (NewPaletted (image_Rect 0 0 (Dx (Bounds gray)) (Dy (Bounds gray))) WebSafe)
          (numColors ?fl) True True,
        CreateEv ''FloydSteinberg.gif'', CloseEv ''FloydSteinberg.gif''],
       Return (Quantize (calm default_flags) (Kernel ?k) gray
          (NewPaletted (image_Rect 0 0 (Dx (Bounds gray)) (Dy (Bounds gray))) WebSafe)
          (numColors ?fl) True True, None))"
    by simp
  then have "snd (Quantify (calm default_flags) ?fl (Some gray) ''FloydSteinberg.gif'') =
        Return (Some gray, None)
      \<and> drop 2 (fst (Quantify (calm default_flags) ?fl (Some gray) ''FloydSteinberg.gif'')) =
        [CreateEv ''FloydSteinberg.gif'', CloseEv ''FloydSteinberg.gif'']"
    by (simp add: calm_def)
  with jpg png created mode show ?thesis
    by simp
qed

text \<open>
  C10, as the claim states it, fails: a run that has come to the processing step and
  whose kernel name is not registered, or whose encoder fails, ends in \<^verbatim>\<open>log.Fatal\<close>
  inside \<^verbatim>\<open>Quantify\<close>, and the completion message is not printed.
\<close>

theorem completion_message_not_printed:
  "''Rendering image...''
     \<in> set (printed (fst (main (calm (default_flags\<lparr>ditherer := ''Bayer''\<rparr>))
          [''cli'', ''in.png'', ''-ditherer'', ''Bayer''])))
   \<and> snd (main (calm (default_flags\<lparr>ditherer := ''Bayer''\<rparr>))
          [''cli'', ''in.png'', ''-ditherer'', ''Bayer'']) = Fatal invalid_method
   \<and> done_message
     \<notin> set (printed (fst (main (calm (default_flags\<lparr>ditherer := ''Bayer''\<rparr>))
          [''cli'', ''in.png'', ''-ditherer'', ''Bayer''])))
   \<and> snd (main (calm default_flags\<lparr>jpeg_Encode := \<lambda>p m q. Some (Error ''short write'')\<rparr>)
          [''cli'', ''in.png'']) = Fatal ''short write''
   \<and> done_message
     \<notin> set (printed (fst (main (calm default_flags\<lparr>jpeg_Encode := \<lambda>p m q. Some (Error ''short write'')\<rparr>)
          [''cli'', ''in.png''])))"
  by (simp add: main_def Open_def process_def complete_def discard_def Quantify_def Quantify_save_def
        pre_def Let_def sample_defs trace_simps dither_lookup_def dither_def done_message_def)

text \<open>
  C10, amended: main drops both results of every \<^verbatim>\<open>Quantify\<close> call. For every run
  that comes to the processing step, if the type is neither jpg nor png no call is made
  and the completion message is printed; otherwise, if the call of \<^verbatim>\<open>Quantify\<close>
  returns, whatever image and error it returns, the completion message is printed and
  main returns, and if the call ends the process (\<^verbatim>\<open>log.Fatal\<close> or a panic) the run
  ends there, the same way. The completion message is printed exactly when main returns.
\<close>

theorem main_completion_message:
  assumes "1 < length args" and "args ! 1 \<noteq> ''--help''" and "args ! 1 \<noteq> ''-h''"
    and "flag_Parse w (drop 2 args) = Parsed fl" and "1 < numColors fl"
    and "filepath_Abs w (filepath_Dir w (args ! 1)) = Inr cwd"
  shows "(imageType fl \<noteq> ''jpg'' \<and> imageType fl \<noteq> ''png'' \<longrightarrow>
            main w args =
              (preamble w fl cwd @ [DoneSignalEv, Stdout done_message, StdoutElapsed], Return ()))
       \<and> (imageType fl = ''jpg'' \<or> imageType fl = ''png'' \<longrightarrow>
            (case snd (Quantify w fl (fst (Open w \<lparr>name = args ! 1\<rparr>)) (output_name fl)) of
               Return v \<Rightarrow>
                 main w args =
                   (preamble w fl cwd
                      @ fst (Quantify w fl (fst (Open w \<lparr>name = args ! 1\<rparr>)) (output_name fl))
                      @ [DoneSignalEv, Stdout done_message, StdoutElapsed],
                    Return ())
             | Exit n \<Rightarrow>
                 main w args =
                   (preamble w fl cwd
                      @ fst (Quantify w fl (fst (Open w \<lparr>name = args ! 1\<rparr>)) (output_name fl)),
                    Exit n)
             | Fatal m \<Rightarrow>
                 main w args =
                   (preamble w fl cwd
                      @ fst (Quantify w fl (fst (Open w \<lparr>name = args ! 1\<rparr>)) (output_name fl)),
                    Fatal m)
             | Panic m \<Rightarrow>
                 main w args =
                   (preamble w fl cwd
                      @ fst (Quantify w fl (fst (Open w \<lparr>name = args ! 1\<rparr>)) (output_name fl)),
                    Panic m)))
       \<and> (done_message \<in> set (printed (fst (main w args))) \<longleftrightarrow> snd (main w args) = Return ())"
proof -
  let ?img = "fst (Open w \<lparr>name = args ! 1\<rparr>)"
  have run: "main w args = pre (preamble w fl cwd) (complete (process w fl ?img))"
    using assms by (rule main_reaches)
  have quiet: "printed (preamble w fl cwd @ fst (process w fl ?img)) = [''Rendering image...'']"
    by (simp add: trace_simps process_printed preamble_def)
  have other: "done_message \<noteq> ''Rendering image...''"
    by (simp add: done_message_def)
  have unknown: "imageType fl \<noteq> ''jpg'' \<and> imageType fl \<noteq> ''png'' \<longrightarrow>
      main w args =
        (preamble w fl cwd @ [DoneSignalEv, Stdout done_message, StdoutElapsed], Return ())"
    by (simp add: run process_Quantify complete_def pre_def)
  have known: "imageType fl = ''jpg'' \<or> imageType fl = ''png'' \<longrightarrow>
      (case snd (Quantify w fl ?img (output_name fl)) of
         Return v \<Rightarrow>
           main w args =
             (preamble w fl cwd @ fst (Quantify w fl ?img (output_name fl))
                @ [DoneSignalEv, Stdout done_message, StdoutElapsed], Return ())
       | Exit n \<Rightarrow> main w args = (preamble w fl cwd @ fst (Quantify w fl ?img (output_name fl)), Exit n)
       | Fatal m \<Rightarrow> main w args = (preamble w fl cwd @ fst (Quantify w fl ?img (output_name fl)), Fatal m)
       | Panic m \<Rightarrow> main w args = (preamble w fl cwd @ fst (Quantify w fl ?img (output_name fl)), Panic m))"
    by (simp add: run process_Quantify complete_def discard_def pre_def split: outcome.splits)
  have message: "done_message \<in> set (printed (fst (main w args))) \<longleftrightarrow> snd (main w args) = Return ()"
  proof (cases "snd (process w fl ?img)")
    case (Return u)
    then show ?thesis
      by (simp add: run complete_def pre_def trace_simps)
  next
    case (Exit n)
    with quiet other show ?thesis
      by (simp add: run complete_def pre_def trace_simps)
  next
    case (Fatal m)
    with quiet other show ?thesis
      by (simp add: run complete_def pre_def trace_simps)
  next
    case (Panic m)
    with quiet other show ?thesis
      by (simp add: run complete_def pre_def trace_simps)
  qed
  from unknown known message show ?thesis
    by (rule conjI [OF _ conjI])
qed

text \<open>
  The amended C10 at a run where \<^verbatim>\<open>os.Create\<close> fails: \<^verbatim>\<open>Quantify\<close> returns the
  error, main drops it and prints the completion message.
\<close>

theorem main_completion_message_witness:
  "1 < length [''cli'', ''in.png'']
   \<and> [''cli'', ''in.png''] ! 1 \<noteq> ''--help'' \<and> [''cli'', ''in.png''] ! 1 \<noteq> ''-h''
   \<and> flag_Parse (calm default_flags\<lparr>os_Create := \<lambda>p. Some (Error ''permission denied'')\<rparr>)
        (drop 2 [''cli'', ''in.png'']) = Parsed default_flags
   \<and> 1 < numColors default_flags
   \<and> snd (Quantify (calm default_flags\<lparr>os_Create := \<lambda>p. Some (Error ''permission denied'')\<rparr>)
        default_flags (Some gray) ''FloydSteinberg.jpg'')
       = Return (None, Some (Error ''permission denied''))
   \<and> snd (main (calm default_flags\<lparr>os_Create := \<lambda>p. Some (Error ''permission denied'')\<rparr>)
        [''cli'', ''in.png'']) = Return ()
   \<and> done_message
       \<in> set (printed (fst (main (calm default_flags\<lparr>os_Create := \<lambda>p. Some (Error ''permission denied'')\<rparr>)
            [''cli'', ''in.png''])))"
proof -
  let ?w = "calm default_flags\<lparr>os_Create := \<lambda>p. Some (Error ''permission denied'')\<rparr>"
  let ?args = "[''cli'', ''in.png'']"
  have args: "1 < length ?args" "?args ! 1 \<noteq> ''--help''" "?args ! 1 \<noteq> ''-h''"
    by simp_all
  have parsed: "flag_Parse ?w (drop 2 ?args) = Parsed default_flags"
    by (simp add: calm_def)
  have colors: "1 < numColors default_flags"
    by (simp add: default_flags_def)
  have cwd: "filepath_Abs ?w (filepath_Dir ?w (?args ! 1)) = Inr ''/home/user/pics''"
    by (simp add: calm_def)
  have failed: "snd (Quantify ?w default_flags (Some gray) ''FloydSteinberg.jpg'')
      = Return (None, Some (Error ''permission denied''))"
    by (simp add: Quantify_def Quantify_save_def pre_def Let_def sample_defs dither_lookup_def
          dither_def)
  have opened: "fst (Open ?w \<lparr>name = ''in.png''\<rparr>) = Some gray"
    by (simp add: Open_def calm_def)
  have named: "output_name default_flags = ''FloydSteinberg.jpg''"
    by (simp add: output_name_def default_flags_def)
  have jpg: "imageType default_flags = ''jpg''"
    by (simp add: default_flags_def)
  note run = main_completion_message [OF args parsed colors cwd]
  from run jpg failed have "snd (main ?w ?args) = Return ()"
    by (simp add: opened named)
  moreover from run this have "done_message \<in> set (printed (fst (main ?w ?args)))"
    by blast
  ultimately show ?thesis
    using args parsed colors failed by blast
qed

end
